theory Spec2Isabelle
  imports Complex_Main "HOL-Library.Log_Nat" "HOL-Library.Multiset" "HOL-Library.Monad_Syntax"
begin

section \<open>Column types of the schema\<close>

text \<open>
  The migration declares the columns of \<^verbatim>\<open>orders\<close> and \<^verbatim>\<open>order_items\<close> with the types
  \<^verbatim>\<open>uuid\<close>, \<^verbatim>\<open>text\<close>, \<^verbatim>\<open>numeric(10,2)\<close>, \<^verbatim>\<open>integer\<close> and \<^verbatim>\<open>timestamptz\<close>.
  A \<^verbatim>\<open>numeric(10,2)\<close> value is kept as its number of hundredths (45.99 is 4599): the
  column holds exactly the decimals with two fraction digits and fewer than ten digits
  in all, so an amount \<open>c\<close> fits the column when \<open>\<bar>c\<bar> < 10 ^ 10\<close>. Values arrive already
  at the scale of the column; the conversion from JSON text is not part of the model.
\<close>

type_synonym uuid = nat
type_synonym numeric = int
type_synonym timestamptz = nat

definition fits_numeric :: "numeric \<Rightarrow> bool" where
  "fits_numeric c = (\<bar>c\<bar> < 10 ^ 10)"

definition fits_integer :: "int \<Rightarrow> bool" where
  "fits_integer q = (- (2 ^ 31) \<le> q \<and> q < 2 ^ 31)"

text \<open>A key of a JSON request body: left out, \<^verbatim>\<open>null\<close>, or a value.\<close>

datatype 'a field = Absent | Null | Val 'a

record order_row =
  o_id :: uuid
  restaurant_id :: uuid
  customer_name :: string
  customer_phone :: string
  customer_address :: string
  status :: "string option"
  total_amount :: numeric
  delivery_fee :: "numeric option"
  payment_method :: "string option"
  payment_status :: "string option"
  o_notes :: "string option"
  created_at :: "timestamptz option"
  updated_at :: "timestamptz option"

record order_item_row =
  item_id :: uuid
  order_id :: uuid
  menu_item_id :: uuid
  quantity :: int
  price :: numeric
  subtotal :: numeric

text \<open>
  The store: the four tables the order routes read and write. Of \<^verbatim>\<open>restaurants\<close> and
  \<^verbatim>\<open>menu_items\<close> only the key and the \<^verbatim>\<open>name\<close> column are used (foreign keys and the
  joined display name).
\<close>

record db =
  restaurants :: "(uuid \<times> string) list"
  menu_items :: "(uuid \<times> string) list"
  orders :: "order_row list"
  order_items :: "order_item_row list"

section \<open>JavaScript numbers\<close>

text \<open>
  A finite JavaScript Number is an IEEE 754 binary64 value, here the rational it denotes.
  \<open>fl\<close> rounds a rational to the nearest such value, ties to even: a significand of 53
  bits, the exponent of the last place never below \<open>-1074\<close> (subnormals). The sums of
  this program stay far below the largest finite value, so overflow to \<^verbatim>\<open>Infinity\<close> is
  not represented.
\<close>

definition floorlog2 :: "rat \<Rightarrow> int" where
  "floorlog2 x = (case quotient_of x of (p, q) \<Rightarrow>
     (let e0 = bitlen p - bitlen q
      in if (if 0 \<le> e0 then q * 2 ^ nat e0 \<le> p else q \<le> p * 2 ^ nat (- e0))
         then e0 else e0 - 1))"

definition pow2 :: "int \<Rightarrow> rat" where
  "pow2 e = (if 0 \<le> e then 2 ^ nat e else 1 / 2 ^ nat (- e))"

definition roundTiesToEven :: "rat \<Rightarrow> int" where
  "roundTiesToEven x = (let f = \<lfloor>x\<rfloor>; d = x - of_int f
     in if d < 1 / 2 then f else if 1 / 2 < d then f + 1 else if even f then f else f + 1)"

definition fl :: "rat \<Rightarrow> rat" where
  "fl x = (if x = 0 then 0
     else (let u = pow2 (max (floorlog2 \<bar>x\<bar> - 52) (- 1074))
           in of_int (roundTiesToEven (x / u)) * u))"

text \<open>\<^verbatim>\<open>a + b\<close> on Numbers: the exact sum, rounded.\<close>

definition js_add :: "rat \<Rightarrow> rat \<Rightarrow> rat" where
  "js_add a b = fl (a + b)"

text \<open>
  \<^verbatim>\<open>parseFloat(o.total_amount)\<close>: the Number nearest to the decimal the column holds
  (the decimal text of a \<^verbatim>\<open>numeric\<close>, or the Number the JSON parser already made of it,
  which \<^verbatim>\<open>parseFloat\<close> reads back unchanged).
\<close>

definition parseFloat :: "numeric \<Rightarrow> rat" where
  "parseFloat c = fl (of_int c / 100)"

section \<open>Responses\<close>

record stats =
  total_orders :: nat
  pending :: nat
  preparing :: nat
  delivered :: nat
  cancelled :: nat
  total_revenue :: rat

text \<open>
  What a route hands to \<^verbatim>\<open>res.json\<close>: \<^verbatim>\<open>{success: true, data}\<close>,
  \<^verbatim>\<open>{success: true, message}\<close> or \<^verbatim>\<open>{success: false, error}\<close>. The detail view of an order is
  the header with the joined restaurant name, and the items each with the joined menu item
  name.
\<close>

datatype payload =
    OrderData order_row
  | OrderDetail order_row "string option" "(order_item_row \<times> string option) list"
  | StatsData stats

datatype envelope =
    Success payload
  | SuccessMessage string
  | Failure string

text \<open>
  Errors of the storage client, by the code PostgreSQL or PostgREST reports:
  23502, 23514, 23505, 23503, 22003, and PGRST116 (a single row was requested and the
  result has none or several).
\<close>

datatype pg_error =
    NotNullViolation
  | CheckViolation
  | UniqueViolation
  | ForeignKeyViolation
  | NumericOverflow
  | NotSingleRow

text \<open>
  A route either responds with an HTTP status and an envelope, or passes the storage
  error it caught to \<^verbatim>\<open>next\<close>.
\<close>

datatype outcome =
    Respond nat envelope
  | Next pg_error

section \<open>GET /stats/summary\<close>

definition stats_of :: "order_row list \<Rightarrow> stats" where
  "stats_of os = \<lparr>
     total_orders = length os,
     pending = length (filter (\<lambda>x. status x = Some ''pending'') os),
     preparing = length (filter (\<lambda>x. status x = Some ''preparing'') os),
     delivered = length (filter (\<lambda>x. status x = Some ''delivered'') os),
     cancelled = length (filter (\<lambda>x. status x = Some ''cancelled'') os),
     total_revenue =
       foldl (\<lambda>acc x. js_add acc (parseFloat (total_amount x))) 0
         (filter (\<lambda>x. status x = Some ''delivered'') os) \<rparr>"

definition summarize :: "db \<Rightarrow> outcome \<times> db" where
  "summarize d = (Respond 200 (Success (StatsData (stats_of (orders d)))), d)"

text \<open>
  The revenue in the words of the specification: the sum of \<^verbatim>\<open>total_amount\<close> over the
  delivered orders, as an exact decimal.
\<close>

definition revenue_spec :: "order_row list \<Rightarrow> rat" where
  "revenue_spec os = sum_list (map (\<lambda>x. of_int (total_amount x) / 100)
     (filter (\<lambda>x. status x = Some ''delivered'') os))"

text \<open>
  Adding the amounts to \<open>acc\<close> one after the other never rounds: each amount and each
  partial sum is a Number.
\<close>

fun unrounded :: "rat \<Rightarrow> rat list \<Rightarrow> bool" where
  "unrounded acc [] = True"
| "unrounded acc (a # as) = (fl a = a \<and> fl (acc + a) = acc + a \<and> unrounded (acc + a) as)"

section \<open>Request bodies\<close>

text \<open>
  The body of \<^verbatim>\<open>POST /\<close> without its \<^verbatim>\<open>items\<close> (\<^verbatim>\<open>orderData\<close>) and the body of \<^verbatim>\<open>PUT /:id\<close>
  (\<^verbatim>\<open>updateData\<close>) are sent to the storage client as they are: one key per column of
  \<^verbatim>\<open>orders\<close>, each left out, \<^verbatim>\<open>null\<close> or a value.
\<close>

record order_body =
  b_id :: "uuid field"
  b_restaurant_id :: "uuid field"
  b_customer_name :: "string field"
  b_customer_phone :: "string field"
  b_customer_address :: "string field"
  b_status :: "string field"
  b_total_amount :: "numeric field"
  b_delivery_fee :: "numeric field"
  b_payment_method :: "string field"
  b_payment_status :: "string field"
  b_notes :: "string field"
  b_created_at :: "timestamptz field"
  b_updated_at :: "timestamptz field"

definition empty_body :: order_body where
  "empty_body = \<lparr> b_id = Absent, b_restaurant_id = Absent, b_customer_name = Absent,
     b_customer_phone = Absent, b_customer_address = Absent, b_status = Absent,
     b_total_amount = Absent, b_delivery_fee = Absent, b_payment_method = Absent,
     b_payment_status = Absent, b_notes = Absent, b_created_at = Absent,
     b_updated_at = Absent \<rparr>"

text \<open>
  An element of \<^verbatim>\<open>items\<close>; \<open>None\<close> is a key that is left out or \<^verbatim>\<open>null\<close> (no column of
  \<^verbatim>\<open>order_items\<close> that the route fills has a default, so the two store the same).
\<close>

record item_body =
  i_menu_item_id :: "uuid option"
  i_quantity :: "int option"
  i_price :: "numeric option"

text \<open>The objects the route builds for the batch insert.\<close>

record item_insert =
  n_order_id :: uuid
  n_menu_item_id :: "uuid option"
  n_quantity :: "int option"
  n_price :: "numeric option"

section \<open>The tables and their constraints\<close>

fun required :: "'a field \<Rightarrow> 'a option" where
  "required (Val v) = Some v"
| "required Absent = None"
| "required Null = None"

fun or_default :: "'a \<Rightarrow> 'a field \<Rightarrow> 'a option" where
  "or_default dflt Absent = Some dflt"
| "or_default dflt Null = None"
| "or_default dflt (Val v) = Some v"

fun nullable :: "'a field \<Rightarrow> 'a option" where
  "nullable (Val v) = Some v"
| "nullable Absent = None"
| "nullable Null = None"

fun field_all :: "('a \<Rightarrow> bool) \<Rightarrow> 'a field \<Rightarrow> bool" where
  "field_all P (Val v) = P v"
| "field_all P Absent = True"
| "field_all P Null = True"

fun option_all :: "('a \<Rightarrow> bool) \<Rightarrow> 'a option \<Rightarrow> bool" where
  "option_all P (Some v) = P v"
| "option_all P None = True"

definition order_statuses :: "string list" where
  "order_statuses = [''pending'', ''preparing'', ''delivered'', ''cancelled'']"

definition payment_methods :: "string list" where
  "payment_methods = [''cash'', ''card'', ''online'']"

definition payment_statuses :: "string list" where
  "payment_statuses = [''pending'', ''paid'', ''refunded'']"

text \<open>The values of the body fit the \<^verbatim>\<open>numeric(10,2)\<close> columns they are assigned to.\<close>

definition body_fits :: "order_body \<Rightarrow> bool" where
  "body_fits b = (field_all fits_numeric (b_total_amount b)
     \<and> field_all fits_numeric (b_delivery_fee b))"

text \<open>
  The row an \<^verbatim>\<open>INSERT\<close> of the body makes: a column that is left out takes its
  \<^verbatim>\<open>DEFAULT\<close> (\<^verbatim>\<open>gen_random_uuid()\<close>, here the value \<open>g\<close> it returned; \<^verbatim>\<open>now()\<close>, here \<open>now\<close>;
  the constants of the migration), and \<open>None\<close> when a \<^verbatim>\<open>NOT NULL\<close> column (the
  primary key among them) would be null.
\<close>

definition new_order_row :: "uuid \<Rightarrow> timestamptz \<Rightarrow> order_body \<Rightarrow> order_row option" where
  "new_order_row g now b = do {
     i \<leftarrow> or_default g (b_id b);
     r \<leftarrow> required (b_restaurant_id b);
     n \<leftarrow> required (b_customer_name b);
     p \<leftarrow> required (b_customer_phone b);
     a \<leftarrow> required (b_customer_address b);
     t \<leftarrow> required (b_total_amount b);
     Some \<lparr> o_id = i, restaurant_id = r, customer_name = n, customer_phone = p,
       customer_address = a, status = or_default ''pending'' (b_status b),
       total_amount = t, delivery_fee = or_default 0 (b_delivery_fee b),
       payment_method = or_default ''cash'' (b_payment_method b),
       payment_status = or_default ''pending'' (b_payment_status b),
       o_notes = nullable (b_notes b),
       created_at = or_default now (b_created_at b),
       updated_at = or_default now (b_updated_at b) \<rparr> }"

text \<open>
  The \<^verbatim>\<open>CHECK\<close> constraints of \<^verbatim>\<open>orders\<close>; a null value passes a \<^verbatim>\<open>CHECK\<close>.
\<close>

definition order_checks :: "order_row \<Rightarrow> bool" where
  "order_checks r = (option_all (\<lambda>s. s \<in> set order_statuses) (status r)
     \<and> 0 \<le> total_amount r
     \<and> option_all (\<lambda>s. s \<in> set payment_methods) (payment_method r)
     \<and> option_all (\<lambda>s. s \<in> set payment_statuses) (payment_status r))"

definition inserted_row :: "uuid \<Rightarrow> timestamptz \<Rightarrow> order_body \<Rightarrow> pg_error + order_row" where
  "inserted_row g now b =
     (if \<not> body_fits b then Inl NumericOverflow
      else case new_order_row g now b of
        None \<Rightarrow> Inl NotNullViolation
      | Some r \<Rightarrow> if \<not> order_checks r then Inl CheckViolation else Inr r)"

text \<open>
  \<^verbatim>\<open>supabase.from('orders').insert([orderData]).select()\<close>: the row is built and checked,
  then the primary key, then the reference to \<^verbatim>\<open>restaurants\<close>. A statement that fails
  leaves the store as it was.
\<close>

definition insert_order ::
  "db \<Rightarrow> uuid \<Rightarrow> timestamptz \<Rightarrow> order_body \<Rightarrow> pg_error + order_row list \<times> db" where
  "insert_order d g now b =
     (case inserted_row g now b of
        Inl e \<Rightarrow> Inl e
      | Inr r \<Rightarrow>
          if o_id r \<in> set (map o_id (orders d)) then Inl UniqueViolation
          else if restaurant_id r \<notin> set (map fst (restaurants d)) then Inl ForeignKeyViolation
          else Inr ([r], d\<lparr>orders := orders d @ [r]\<rparr>))"

text \<open>
  The values of a batch are converted to the types of their columns before any row is
  stored: every quantity must fit \<^verbatim>\<open>integer\<close> and every price \<^verbatim>\<open>numeric(10,2)\<close>.
\<close>

definition batch_converts :: "item_insert list \<Rightarrow> bool" where
  "batch_converts ns = list_all (\<lambda>n. option_all fits_integer (n_quantity n)
     \<and> option_all fits_numeric (n_price n)) ns"

text \<open>
  One row of \<^verbatim>\<open>order_items\<close>: the generated \<^verbatim>\<open>subtotal\<close> (\<^verbatim>\<open>quantity * price\<close>) must fit
  \<^verbatim>\<open>numeric(10,2)\<close>; the three columns are \<^verbatim>\<open>NOT NULL\<close>; \<^verbatim>\<open>CHECK (quantity > 0)\<close> and
  \<^verbatim>\<open>CHECK (price >= 0)\<close>.
\<close>

definition new_item_row :: "uuid \<Rightarrow> item_insert \<Rightarrow> pg_error + order_item_row" where
  "new_item_row g n =
     (case (n_menu_item_id n, n_quantity n, n_price n) of
        (Some m, Some q, Some p) \<Rightarrow>
          if \<not> fits_numeric (q * p) then Inl NumericOverflow
          else if \<not> (0 < q \<and> 0 \<le> p) then Inl CheckViolation
          else Inr \<lparr> item_id = g, order_id = n_order_id n, menu_item_id = m,
                 quantity = q, price = p, subtotal = q * p \<rparr>
      | _ \<Rightarrow> Inl NotNullViolation)"

text \<open>
  The rows of one batch, in order: row number \<open>k\<close> of the request takes the key
  \<open>gen k\<close>, which must be new among the keys of the table and of the rows before it.
\<close>

fun insert_rows ::
  "uuid list \<Rightarrow> (nat \<Rightarrow> uuid) \<Rightarrow> nat \<Rightarrow> item_insert list \<Rightarrow> pg_error + order_item_row list" where
  "insert_rows used gen k [] = Inr []"
| "insert_rows used gen k (n # ns) =
     (case new_item_row (gen k) n of
        Inl e \<Rightarrow> Inl e
      | Inr r \<Rightarrow>
          if item_id r \<in> set used then Inl UniqueViolation
          else (case insert_rows (item_id r # used) gen (Suc k) ns of
                  Inl e \<Rightarrow> Inl e
                | Inr rs \<Rightarrow> Inr (r # rs)))"

text \<open>
  \<^verbatim>\<open>supabase.from('order_items').insert(orderItems)\<close>: one statement. The whole batch is
  converted first, then the rows are built one after the other, and the references to
  \<^verbatim>\<open>orders\<close> and \<^verbatim>\<open>menu_items\<close> are checked when all rows are built; either every row is
  stored or none is.
\<close>

definition insert_order_items ::
  "db \<Rightarrow> (nat \<Rightarrow> uuid) \<Rightarrow> nat \<Rightarrow> item_insert list \<Rightarrow> pg_error + db" where
  "insert_order_items d gen k ns =
     (if \<not> batch_converts ns then Inl NumericOverflow
      else case insert_rows (map item_id (order_items d)) gen k ns of
        Inl e \<Rightarrow> Inl e
      | Inr rs \<Rightarrow>
          if list_all (\<lambda>r. order_id r \<in> set (map o_id (orders d))
                \<and> menu_item_id r \<in> set (map fst (menu_items d))) rs
          then Inr (d\<lparr>order_items := order_items d @ rs\<rparr>)
          else Inl ForeignKeyViolation)"

text \<open>
  \<^verbatim>\<open>.single()\<close> and \<^verbatim>\<open>.maybeSingle()\<close> on the rows a statement returns. A statement
  whose rows \<^verbatim>\<open>.single()\<close> rejects is not committed: the routes keep the store they had.
\<close>

definition single :: "'a list \<Rightarrow> pg_error + 'a" where
  "single rows = (case rows of [r] \<Rightarrow> Inr r | _ \<Rightarrow> Inl NotSingleRow)"

definition maybeSingle :: "'a list \<Rightarrow> pg_error + 'a option" where
  "maybeSingle rows = (case rows of [] \<Rightarrow> Inr None | [r] \<Rightarrow> Inr (Some r) | _ \<Rightarrow> Inl NotSingleRow)"

text \<open>
  An \<^verbatim>\<open>UPDATE\<close> of one row with the body: a column that is left out keeps its value,
  \<^verbatim>\<open>null\<close> on a \<^verbatim>\<open>NOT NULL\<close> column gives \<open>None\<close>, and the trigger
  \<^verbatim>\<open>update_orders_updated_at\<close> sets \<^verbatim>\<open>updated_at\<close> to \<^verbatim>\<open>now()\<close> whatever the body says.
\<close>

fun set_required :: "'a field \<Rightarrow> 'a \<Rightarrow> 'a option" where
  "set_required Absent old = Some old"
| "set_required Null old = None"
| "set_required (Val v) old = Some v"

fun set_nullable :: "'a field \<Rightarrow> 'a option \<Rightarrow> 'a option" where
  "set_nullable Absent old = old"
| "set_nullable Null old = None"
| "set_nullable (Val v) old = Some v"

definition patched_row :: "timestamptz \<Rightarrow> order_body \<Rightarrow> order_row \<Rightarrow> order_row option" where
  "patched_row now b r = do {
     i \<leftarrow> set_required (b_id b) (o_id r);
     re \<leftarrow> set_required (b_restaurant_id b) (restaurant_id r);
     n \<leftarrow> set_required (b_customer_name b) (customer_name r);
     p \<leftarrow> set_required (b_customer_phone b) (customer_phone r);
     a \<leftarrow> set_required (b_customer_address b) (customer_address r);
     t \<leftarrow> set_required (b_total_amount b) (total_amount r);
     Some \<lparr> o_id = i, restaurant_id = re, customer_name = n, customer_phone = p,
       customer_address = a, status = set_nullable (b_status b) (status r),
       total_amount = t, delivery_fee = set_nullable (b_delivery_fee b) (delivery_fee r),
       payment_method = set_nullable (b_payment_method b) (payment_method r),
       payment_status = set_nullable (b_payment_status b) (payment_status r),
       o_notes = set_nullable (b_notes b) (o_notes r),
       created_at = set_nullable (b_created_at b) (created_at r),
       updated_at = Some now \<rparr> }"

definition updated_row :: "timestamptz \<Rightarrow> order_body \<Rightarrow> order_row \<Rightarrow> pg_error + order_row" where
  "updated_row now b r =
     (if \<not> body_fits b then Inl NumericOverflow
      else case patched_row now b r of
        None \<Rightarrow> Inl NotNullViolation
      | Some r' \<Rightarrow> if \<not> order_checks r' then Inl CheckViolation else Inr r')"

text \<open>
  The rows with key \<open>i\<close> are updated; the result is the rows that were not touched, in
  their order, and the pairs of old and new row of the rows that were updated.
\<close>

fun update_rows ::
  "timestamptz \<Rightarrow> uuid \<Rightarrow> order_body \<Rightarrow> order_row list
     \<Rightarrow> pg_error + order_row list \<times> (order_row \<times> order_row) list" where
  "update_rows now i b [] = Inr ([], [])"
| "update_rows now i b (x # xs) =
     (if o_id x = i
      then (case updated_row now b x of
              Inl e \<Rightarrow> Inl e
            | Inr y \<Rightarrow>
                (case update_rows now i b xs of
                   Inl e \<Rightarrow> Inl e
                 | Inr (kept, ch) \<Rightarrow> Inr (kept, (x, y) # ch)))
      else (case update_rows now i b xs of
              Inl e \<Rightarrow> Inl e
            | Inr (kept, ch) \<Rightarrow> Inr (x # kept, ch)))"

text \<open>
  \<^verbatim>\<open>supabase.from('orders').update(body).eq('id', i).select()\<close>. A body that names no
  column updates and returns no row. An updated row is written as a new version of the
  row, which a \<^verbatim>\<open>SELECT\<close> without \<^verbatim>\<open>ORDER BY\<close> returns after the rows that were not
  touched: the new table is those rows followed by the updated ones. A key that changes
  must not be the key of another row and must not leave rows of \<^verbatim>\<open>order_items\<close> behind
  (their reference has no \<^verbatim>\<open>ON UPDATE\<close> action); a \<^verbatim>\<open>restaurant_id\<close> that changes must
  exist.
\<close>

definition update_orders ::
  "db \<Rightarrow> timestamptz \<Rightarrow> uuid \<Rightarrow> order_body \<Rightarrow> pg_error + order_row list \<times> db" where
  "update_orders d now i b =
     (if b = empty_body then Inr ([], d)
      else case update_rows now i b (orders d) of
        Inl e \<Rightarrow> Inl e
      | Inr (kept, ch) \<Rightarrow>
          (let tbl = kept @ map snd ch
           in if list_ex (\<lambda>(x, y). o_id y \<noteq> o_id x
                    \<and> 1 < length (filter (\<lambda>z. o_id z = o_id y) tbl)) ch
              then Inl UniqueViolation
              else if list_ex (\<lambda>(x, y). restaurant_id y \<noteq> restaurant_id x
                    \<and> restaurant_id y \<notin> set (map fst (restaurants d))) ch
              then Inl ForeignKeyViolation
              else if list_ex (\<lambda>(x, y). o_id y \<noteq> o_id x
                    \<and> o_id x \<notin> set (map o_id tbl)
                    \<and> o_id x \<in> set (map order_id (order_items d))) ch
              then Inl ForeignKeyViolation
              else Inr (map snd ch, d\<lparr>orders := tbl\<rparr>)))"

text \<open>
  \<^verbatim>\<open>supabase.from('orders').delete().eq('id', i)\<close>: the rows with key \<open>i\<close> go, and with
  each of them the rows of \<^verbatim>\<open>order_items\<close> that refer to it (\<^verbatim>\<open>ON DELETE CASCADE\<close>).
  Nothing else refers to either table, so the statement cannot fail.
\<close>

definition delete_orders :: "db \<Rightarrow> uuid \<Rightarrow> pg_error + db" where
  "delete_orders d i =
     (let gone = filter (\<lambda>x. o_id x = i) (orders d)
      in Inr (d\<lparr>orders := filter (\<lambda>x. o_id x \<noteq> i) (orders d),
                order_items := filter (\<lambda>it. order_id it \<notin> set (map o_id gone))
                                 (order_items d)\<rparr>))"

section \<open>The routes\<close>

text \<open>
  Each route takes the store and what the request carries, and gives its outcome and the
  store after it. \<open>gen\<close> is the sequence of keys \<^verbatim>\<open>gen_random_uuid()\<close> returns during the
  request, \<open>now\<close> the time of the request.
\<close>

text \<open>\<^verbatim>\<open>GET /:id\<close>\<close>

definition getOrder :: "db \<Rightarrow> uuid \<Rightarrow> outcome \<times> db" where
  "getOrder d i =
     (case maybeSingle (filter (\<lambda>x. o_id x = i) (orders d)) of
        Inl orderError \<Rightarrow> (Next orderError, d)
      | Inr None \<Rightarrow> (Respond 404 (Failure ''Order not found''), d)
      | Inr (Some order) \<Rightarrow>
          (Respond 200 (Success (OrderDetail order
             (map_of (restaurants d) (restaurant_id order))
             (map (\<lambda>it. (it, map_of (menu_items d) (menu_item_id it)))
                (filter (\<lambda>it. order_id it = i) (order_items d))))), d))"

text \<open>
  \<^verbatim>\<open>POST /\<close>. The header and the items are two statements with no transaction around
  them: when the second fails, the store is the one the first has left.
\<close>

definition orderItems :: "uuid \<Rightarrow> item_body list \<Rightarrow> item_insert list" where
  "orderItems oid items =
     map (\<lambda>item. \<lparr> n_order_id = oid, n_menu_item_id = i_menu_item_id item,
                   n_quantity = i_quantity item, n_price = i_price item \<rparr>) items"

definition createOrder ::
  "db \<Rightarrow> (nat \<Rightarrow> uuid) \<Rightarrow> timestamptz \<Rightarrow> order_body \<Rightarrow> item_body list option
     \<Rightarrow> outcome \<times> db" where
  "createOrder d gen now orderData items =
     (case insert_order d (gen 0) now orderData of
        Inl orderError \<Rightarrow> (Next orderError, d)
      | Inr (rows, d1) \<Rightarrow>
          (case single rows of
             Inl orderError \<Rightarrow> (Next orderError, d)
           | Inr order \<Rightarrow>
               (case items of
                  Some (it # its) \<Rightarrow>
                    (case insert_order_items d1 gen 1 (orderItems (o_id order) (it # its)) of
                       Inl itemsError \<Rightarrow> (Next itemsError, d1)
                     | Inr d2 \<Rightarrow> (Respond 201 (Success (OrderData order)), d2))
                | _ \<Rightarrow> (Respond 201 (Success (OrderData order)), d1))))"

text \<open>\<^verbatim>\<open>PUT /:id\<close>\<close>

definition updateOrder :: "db \<Rightarrow> timestamptz \<Rightarrow> uuid \<Rightarrow> order_body \<Rightarrow> outcome \<times> db" where
  "updateOrder d now i updateData =
     (case update_orders d now i updateData of
        Inl error \<Rightarrow> (Next error, d)
      | Inr (rows, d1) \<Rightarrow>
          (case single rows of
             Inl error \<Rightarrow> (Next error, d)
           | Inr data \<Rightarrow> (Respond 200 (Success (OrderData data)), d1)))"

text \<open>
  \<^verbatim>\<open>PATCH /:id/status\<close>. \<^verbatim>\<open>!status\<close> holds of a key that is left out, of \<^verbatim>\<open>null\<close> and
  of the empty string.
\<close>

fun falsy :: "string field \<Rightarrow> bool" where
  "falsy Absent = True"
| "falsy Null = True"
| "falsy (Val s) = (s = [])"

definition setStatus :: "db \<Rightarrow> timestamptz \<Rightarrow> uuid \<Rightarrow> string field \<Rightarrow> outcome \<times> db" where
  "setStatus d now i status_in =
     (if falsy status_in then (Respond 400 (Failure ''Status is required''), d)
      else case update_orders d now i (empty_body\<lparr>b_status := status_in\<rparr>) of
        Inl error \<Rightarrow> (Next error, d)
      | Inr (rows, d1) \<Rightarrow>
          (case single rows of
             Inl error \<Rightarrow> (Next error, d)
           | Inr data \<Rightarrow> (Respond 200 (Success (OrderData data)), d1)))"

text \<open>\<^verbatim>\<open>DELETE /:id\<close>\<close>

definition deleteOrder :: "db \<Rightarrow> uuid \<Rightarrow> outcome \<times> db" where
  "deleteOrder d i =
     (case delete_orders d i of
        Inl error \<Rightarrow> (Next error, d)
      | Inr d1 \<Rightarrow> (Respond 200 (SuccessMessage ''Order deleted successfully''), d1))"

section \<open>Kinds of failure\<close>

datatype error_kind =
    ValidationError
  | ReferenceError
  | NotFound
  | ConstraintViolation
  | Unavailable

text \<open>
  Modelled from the spec: the kind of failure a caller sees. The middleware
  \<^verbatim>\<open>errorHandler.js\<close> that receives the errors passed to \<^verbatim>\<open>next\<close> is not among the sources,
  so the storage errors are classified by the taxonomy of the specification: missing or
  malformed input (a \<^verbatim>\<open>NOT NULL\<close>, \<^verbatim>\<open>CHECK\<close> or range failure) is a ValidationError, a
  dangling foreign key a ReferenceError, no row with the given id NotFound, and any other
  constraint a ConstraintViolation. A response the route writes itself is a NotFound with
  status 404 and a ValidationError with status 400.
\<close>

fun kind_of_error :: "pg_error \<Rightarrow> error_kind" where
  "kind_of_error NotNullViolation = ValidationError"
| "kind_of_error CheckViolation = ValidationError"
| "kind_of_error NumericOverflow = ValidationError"
| "kind_of_error ForeignKeyViolation = ReferenceError"
| "kind_of_error NotSingleRow = NotFound"
| "kind_of_error UniqueViolation = ConstraintViolation"

fun failure_kind :: "outcome \<Rightarrow> error_kind option" where
  "failure_kind (Next e) = Some (kind_of_error e)"
| "failure_kind (Respond code body) =
     (if code = 404 then Some NotFound
      else if code = 400 then Some ValidationError
      else None)"

section \<open>Well-formed requests\<close>

text \<open>
  The \<^verbatim>\<open>items\<close> of a body, none when the key is left out.
\<close>

fun items_of :: "item_body list option \<Rightarrow> item_body list" where
  "items_of None = []"
| "items_of (Some its) = its"

text \<open>
  An item as the specification asks for it: a menu item reference, a quantity above 0
  and a price of at least 0, all within the range of their columns (the subtotal too).
\<close>

definition item_ok :: "item_body \<Rightarrow> bool" where
  "item_ok it = (case (i_menu_item_id it, i_quantity it, i_price it) of
       (Some m, Some q, Some p) \<Rightarrow>
         0 < q \<and> fits_integer q \<and> 0 \<le> p \<and> fits_numeric p \<and> fits_numeric (q * p)
     | _ \<Rightarrow> False)"

definition item_ref_ok :: "db \<Rightarrow> item_body \<Rightarrow> bool" where
  "item_ref_ok d it = (case i_menu_item_id it of
       Some m \<Rightarrow> m \<in> set (map fst (menu_items d))
     | None \<Rightarrow> False)"

text \<open>
  The keys \<open>gen k\<close>, ..., \<open>gen (k + n - 1)\<close> are distinct and none of them is in use.
\<close>

definition fresh_keys :: "uuid list \<Rightarrow> (nat \<Rightarrow> uuid) \<Rightarrow> nat \<Rightarrow> nat \<Rightarrow> bool" where
  "fresh_keys used gen k n = (distinct (map gen [k..<k + n])
     \<and> list_all (\<lambda>j. gen j \<notin> set used) [k..<k + n])"

text \<open>
  A header as the specification asks for it: the restaurant exists, the three customer
  fields and a \<^verbatim>\<open>total_amount\<close> of at least 0 are given, a status, payment method or
  payment status that is given is one of the listed values, and the id and the timestamps
  are left to the storage.
\<close>

definition header_ok :: "db \<Rightarrow> order_body \<Rightarrow> bool" where
  "header_ok d b = (b_id b = Absent \<and> b_created_at b = Absent \<and> b_updated_at b = Absent
     \<and> (case b_restaurant_id b of
           Val r \<Rightarrow> r \<in> set (map fst (restaurants d)) | Absent \<Rightarrow> False | Null \<Rightarrow> False)
     \<and> required (b_customer_name b) \<noteq> None
     \<and> required (b_customer_phone b) \<noteq> None
     \<and> required (b_customer_address b) \<noteq> None
     \<and> (case b_total_amount b of
           Val t \<Rightarrow> 0 \<le> t \<and> fits_numeric t | Absent \<Rightarrow> False | Null \<Rightarrow> False)
     \<and> field_all (\<lambda>s. s \<in> set order_statuses) (b_status b)
     \<and> field_all fits_numeric (b_delivery_fee b)
     \<and> field_all (\<lambda>s. s \<in> set payment_methods) (b_payment_method b)
     \<and> field_all (\<lambda>s. s \<in> set payment_statuses) (b_payment_status b))"

text \<open>
  A stored header matches the header of a request: every field the request gives has the
  given value, and a field it leaves out has the default of the data model (status
  \<^verbatim>\<open>pending\<close>, delivery fee 0, payment method \<^verbatim>\<open>cash\<close>, payment status \<^verbatim>\<open>pending\<close>, no
  notes).
\<close>

definition header_matches :: "order_body \<Rightarrow> order_row \<Rightarrow> bool" where
  "header_matches b r = (b_restaurant_id b = Val (restaurant_id r)
     \<and> b_customer_name b = Val (customer_name r)
     \<and> b_customer_phone b = Val (customer_phone r)
     \<and> b_customer_address b = Val (customer_address r)
     \<and> b_total_amount b = Val (total_amount r)
     \<and> status r = or_default ''pending'' (b_status b)
     \<and> delivery_fee r = or_default 0 (b_delivery_fee b)
     \<and> payment_method r = or_default ''cash'' (b_payment_method b)
     \<and> payment_status r = or_default ''pending'' (b_payment_status b)
     \<and> o_notes r = nullable (b_notes b))"

section \<open>Sample data\<close>

text \<open>A stored order with the given key, status and amount (in hundredths).\<close>

definition sample_order :: "uuid \<Rightarrow> string \<Rightarrow> numeric \<Rightarrow> order_row" where
  "sample_order i s c = \<lparr> o_id = i, restaurant_id = 1, customer_name = ''Ada'',
     customer_phone = ''555-0100'', customer_address = ''1 Main St'', status = Some s,
     total_amount = c, delivery_fee = Some 0, payment_method = Some ''cash'',
     payment_status = Some ''pending'', o_notes = None, created_at = Some 0,
     updated_at = Some 0 \<rparr>"

definition sample_db :: db where
  "sample_db = \<lparr> restaurants = [(1, ''Luigi'')],
     menu_items = [(10, ''Pizza''), (11, ''Pasta'')],
     orders = [sample_order 100 ''pending'' 4599],
     order_items = [\<lparr> item_id = 200, order_id = 100, menu_item_id = 10, quantity = 2,
                       price = 1250, subtotal = 2500 \<rparr>] \<rparr>"

definition sample_patch :: order_body where
  "sample_patch = empty_body\<lparr>b_total_amount := Val 5000, b_notes := Val ''ring twice''\<rparr>"

definition sample_header :: order_body where
  "sample_header = empty_body\<lparr>b_restaurant_id := Val 1, b_customer_name := Val ''Grace'',
     b_customer_phone := Val ''555-0199'', b_customer_address := Val ''2 Side St'',
     b_total_amount := Val 4599, b_payment_method := Val ''card''\<rparr>"

definition sample_items :: "item_body list" where
  "sample_items = [\<lparr> i_menu_item_id = Some 10, i_quantity = Some 2, i_price = Some 1250 \<rparr>,
                   \<lparr> i_menu_item_id = Some 11, i_quantity = Some 1, i_price = Some 2099 \<rparr>]"

definition sample_gen :: "nat \<Rightarrow> uuid" where
  "sample_gen k = 300 + k"

text \<open>
  The row the sample header is stored as, with the key 300 at time 9; items of which the
  last names a menu item that is not stored; an item with the quantity 0.
\<close>

definition sample_stored :: order_row where
  "sample_stored = \<lparr> o_id = 300, restaurant_id = 1, customer_name = ''Grace'',
     customer_phone = ''555-0199'', customer_address = ''2 Side St'',
     status = Some ''pending'', total_amount = 4599, delivery_fee = Some 0,
     payment_method = Some ''card'', payment_status = Some ''pending'', o_notes = None,
     created_at = Some 9, updated_at = Some 9 \<rparr>"

definition sample_dangling_items :: "item_body list" where
  "sample_dangling_items = sample_items
     @ [\<lparr> i_menu_item_id = Some 12, i_quantity = Some 1, i_price = Some 2099 \<rparr>]"

definition sample_zero_items :: "item_body list" where
  "sample_zero_items = [\<lparr> i_menu_item_id = Some 10, i_quantity = Some 0, i_price = Some 1250 \<rparr>]"

section \<open>Properties of the summary\<close>

lemma length_filter_count: "length (filter (\<lambda>x. f x = v) xs) = count (mset (map f xs)) v"
  by (induction xs) auto

lemma foldl_js_add_unrounded:
  "unrounded acc as \<Longrightarrow> foldl js_add acc (map fl as) = acc + sum_list as"
  by (induction as arbitrary: acc) (simp_all add: js_add_def add.assoc)

text \<open>
  The summary responds 200 with the statistics of all stored orders and leaves the store
  as it is. \<open>total_orders\<close> is the number of orders and each of the four status counts
  is the number of orders of that status. \<open>total_revenue\<close> is computed from exactly the
  delivered orders, in the order of the rows and in the Number arithmetic of the route:
  it starts at 0, an order that is delivered adds its amount and any other order leaves
  it as it is. Where no addition rounds, it is the decimal sum of the specification. On
  no orders all six fields are 0.
\<close>

lemma summary_counts_and_fold:
  "summarize d = (Respond 200 (Success (StatsData (stats_of (orders d)))), d)
   \<and> total_orders (stats_of os) = length os
   \<and> pending (stats_of os) = count (mset (map status os)) (Some ''pending'')
   \<and> preparing (stats_of os) = count (mset (map status os)) (Some ''preparing'')
   \<and> delivered (stats_of os) = count (mset (map status os)) (Some ''delivered'')
   \<and> cancelled (stats_of os) = count (mset (map status os)) (Some ''cancelled'')
   \<and> total_revenue (stats_of os) =
       foldl js_add 0 (map (\<lambda>x. parseFloat (total_amount x))
         (filter (\<lambda>x. status x = Some ''delivered'') os))
   \<and> total_revenue (stats_of (os @ [x])) =
       (if status x = Some ''delivered''
        then js_add (total_revenue (stats_of os)) (parseFloat (total_amount x))
        else total_revenue (stats_of os))
   \<and> (unrounded 0 (map (\<lambda>x. of_int (total_amount x) / 100)
          (filter (\<lambda>x. status x = Some ''delivered'') os))
        \<longrightarrow> total_revenue (stats_of os) = revenue_spec os)
   \<and> stats_of [] = \<lparr> total_orders = 0, pending = 0, preparing = 0, delivered = 0,
         cancelled = 0, total_revenue = 0 \<rparr>"
proof -
  let ?dl = "filter (\<lambda>x. status x = Some ''delivered'') os"
  have fold: "total_revenue (stats_of os)
      = foldl js_add 0 (map (\<lambda>x. parseFloat (total_amount x)) ?dl)"
    by (simp add: stats_of_def foldl_map)
  have exact: "total_revenue (stats_of os) = revenue_spec os"
    if "unrounded 0 (map (\<lambda>x. of_int (total_amount x) / 100) ?dl)"
  proof -
    have "map (\<lambda>x. parseFloat (total_amount x)) ?dl
        = map fl (map (\<lambda>x. of_int (total_amount x) / 100) ?dl)"
      by (simp add: parseFloat_def)
    with fold foldl_js_add_unrounded [OF that] show ?thesis
      by (simp add: revenue_spec_def)
  qed
  have rest: "summarize d = (Respond 200 (Success (StatsData (stats_of (orders d)))), d)
   \<and> total_orders (stats_of os) = length os
   \<and> pending (stats_of os) = count (mset (map status os)) (Some ''pending'')
   \<and> preparing (stats_of os) = count (mset (map status os)) (Some ''preparing'')
   \<and> delivered (stats_of os) = count (mset (map status os)) (Some ''delivered'')
   \<and> cancelled (stats_of os) = count (mset (map status os)) (Some ''cancelled'')
   \<and> total_revenue (stats_of (os @ [x])) =
       (if status x = Some ''delivered''
        then js_add (total_revenue (stats_of os)) (parseFloat (total_amount x))
        else total_revenue (stats_of os))
   \<and> stats_of [] = \<lparr> total_orders = 0, pending = 0, preparing = 0, delivered = 0,
         cancelled = 0, total_revenue = 0 \<rparr>"
    by (simp add: summarize_def stats_of_def length_filter_count)
  from rest fold exact show ?thesis by blast
qed

lemma sample_unrounded:
  "unrounded 0 (map (\<lambda>x. of_int (total_amount x) / 100)
     (filter (\<lambda>x. status x = Some ''delivered'')
        [sample_order 1 ''delivered'' 4550, sample_order 2 ''cancelled'' 1000,
         sample_order 3 ''delivered'' 1025]))"
  by code_simp

lemma summary_unrounded_example:
  "total_revenue (stats_of [sample_order 1 ''delivered'' 4550, sample_order 2 ''cancelled'' 1000,
         sample_order 3 ''delivered'' 1025])
     = revenue_spec [sample_order 1 ''delivered'' 4550, sample_order 2 ''cancelled'' 1000,
         sample_order 3 ''delivered'' 1025]
   \<and> revenue_spec [sample_order 1 ''delivered'' 4550, sample_order 2 ''cancelled'' 1000,
         sample_order 3 ''delivered'' 1025] = 5575 / 100"
proof -
  let ?os = "[sample_order 1 ''delivered'' 4550, sample_order 2 ''cancelled'' 1000,
      sample_order 3 ''delivered'' 1025]"
  from summary_counts_and_fold [where os = ?os] sample_unrounded
  have "total_revenue (stats_of ?os) = revenue_spec ?os"
    by blast
  moreover have "revenue_spec ?os = 5575 / 100"
    by (simp add: revenue_spec_def sample_order_def)
  ultimately show ?thesis
    by (rule conjI)
qed

text \<open>
  The example of the specification: one delivered order of 45.99 and one cancelled order
  of 10.00 give two orders, one delivered, one cancelled, and the revenue 45.99 (the
  Number nearest to it).
\<close>

lemma summarize_example:
  "stats_of [sample_order 1 ''delivered'' 4599, sample_order 2 ''cancelled'' 1000] =
     \<lparr> total_orders = 2, pending = 0, preparing = 0, delivered = 1, cancelled = 1,
       total_revenue = parseFloat 4599 \<rparr>"
  by code_simp

lemma revenue_with_cancelled:
  "total_revenue (stats_of [sample_order 1 ''delivered'' 10, sample_order 2 ''cancelled'' 1000,
      sample_order 3 ''delivered'' 20]) = 1351079888211149 / 4503599627370496"
  by code_simp

lemma counts_with_cancelled:
  "total_orders (stats_of [sample_order 1 ''delivered'' 10, sample_order 2 ''cancelled'' 1000,
      sample_order 3 ''delivered'' 20]) = 3
   \<and> pending (stats_of [sample_order 1 ''delivered'' 10, sample_order 2 ''cancelled'' 1000,
      sample_order 3 ''delivered'' 20]) = 0
   \<and> preparing (stats_of [sample_order 1 ''delivered'' 10, sample_order 2 ''cancelled'' 1000,
      sample_order 3 ''delivered'' 20]) = 0
   \<and> delivered (stats_of [sample_order 1 ''delivered'' 10, sample_order 2 ''cancelled'' 1000,
      sample_order 3 ''delivered'' 20]) = 2
   \<and> cancelled (stats_of [sample_order 1 ''delivered'' 10, sample_order 2 ''cancelled'' 1000,
      sample_order 3 ''delivered'' 20]) = 1"
  by (simp add: stats_of_def sample_order_def)

lemma revenue_spec_with_cancelled:
  "revenue_spec [sample_order 1 ''delivered'' 10, sample_order 2 ''cancelled'' 1000,
      sample_order 3 ''delivered'' 20] = 30 / 100"
  by (simp add: revenue_spec_def sample_order_def)

text \<open>
  C4. A store with a delivered order of 0.10, a cancelled order of 10.00 and a delivered
  order of 0.20: the summary counts three orders, two delivered and one cancelled, and
  leaves the cancelled order out of the revenue, as the claim says; but the revenue it
  gives is the Number 0.30000000000000004 (1351079888211149 / 2 ^ 52), not the sum 0.30
  of \<^verbatim>\<open>total_amount\<close> over the delivered orders.
\<close>

theorem summarize_revenue_not_the_sum:
  "total_orders (stats_of [sample_order 1 ''delivered'' 10, sample_order 2 ''cancelled'' 1000,
      sample_order 3 ''delivered'' 20]) = 3
   \<and> pending (stats_of [sample_order 1 ''delivered'' 10, sample_order 2 ''cancelled'' 1000,
      sample_order 3 ''delivered'' 20]) = 0
   \<and> preparing (stats_of [sample_order 1 ''delivered'' 10, sample_order 2 ''cancelled'' 1000,
      sample_order 3 ''delivered'' 20]) = 0
   \<and> delivered (stats_of [sample_order 1 ''delivered'' 10, sample_order 2 ''cancelled'' 1000,
      sample_order 3 ''delivered'' 20]) = 2
   \<and> cancelled (stats_of [sample_order 1 ''delivered'' 10, sample_order 2 ''cancelled'' 1000,
      sample_order 3 ''delivered'' 20]) = 1
   \<and> total_revenue (stats_of [sample_order 1 ''delivered'' 10, sample_order 2 ''cancelled'' 1000,
      sample_order 3 ''delivered'' 20]) = 1351079888211149 / 4503599627370496
   \<and> revenue_spec [sample_order 1 ''delivered'' 10, sample_order 2 ''cancelled'' 1000,
      sample_order 3 ''delivered'' 20] = 30 / 100
   \<and> total_revenue (stats_of [sample_order 1 ''delivered'' 10, sample_order 2 ''cancelled'' 1000,
      sample_order 3 ''delivered'' 20])
     \<noteq> revenue_spec [sample_order 1 ''delivered'' 10, sample_order 2 ''cancelled'' 1000,
      sample_order 3 ''delivered'' 20]"
  unfolding revenue_with_cancelled revenue_spec_with_cancelled
  using counts_with_cancelled by simp

text \<open>
  C10. When every stored order has one of the four statuses, the four counts add up to
  \<open>total_orders\<close>.
\<close>

theorem status_counts_partition:
  assumes "\<forall>x \<in> set os. status x \<in>
     {Some ''pending'', Some ''preparing'', Some ''delivered'', Some ''cancelled''}"
  shows "pending (stats_of os) + preparing (stats_of os) + delivered (stats_of os)
         + cancelled (stats_of os) = total_orders (stats_of os)"
  using assms by (induction os) (auto simp: stats_of_def)

theorem status_counts_partition_witness:
  "pending (stats_of [sample_order 1 ''pending'' 500, sample_order 2 ''delivered'' 4599,
      sample_order 3 ''delivered'' 1000, sample_order 4 ''cancelled'' 250])
   + preparing (stats_of [sample_order 1 ''pending'' 500, sample_order 2 ''delivered'' 4599,
      sample_order 3 ''delivered'' 1000, sample_order 4 ''cancelled'' 250])
   + delivered (stats_of [sample_order 1 ''pending'' 500, sample_order 2 ''delivered'' 4599,
      sample_order 3 ''delivered'' 1000, sample_order 4 ''cancelled'' 250])
   + cancelled (stats_of [sample_order 1 ''pending'' 500, sample_order 2 ''delivered'' 4599,
      sample_order 3 ''delivered'' 1000, sample_order 4 ''cancelled'' 250])
   = total_orders (stats_of [sample_order 1 ''pending'' 500, sample_order 2 ''delivered'' 4599,
      sample_order 3 ''delivered'' 1000, sample_order 4 ''cancelled'' 250])"
  by (rule status_counts_partition) (simp add: sample_order_def)

lemma revenue_two_orders:
  "total_revenue (stats_of [sample_order 1 ''delivered'' 10, sample_order 2 ''delivered'' 20])
     = 1351079888211149 / 4503599627370496"
  by code_simp

lemma revenue_spec_two_orders:
  "revenue_spec [sample_order 1 ''delivered'' 10, sample_order 2 ''delivered'' 20] = 30 / 100"
  by (simp add: revenue_spec_def sample_order_def)

lemma parseFloat_30: "parseFloat 30 = 5404319552844595 / 18014398509481984"
  by code_simp

lemma revenue_ten_pairs:
  "total_revenue (stats_of (concat (replicate 10
      [sample_order 1 ''delivered'' 10, sample_order 2 ''delivered'' 20])))
     = 6755399441055747 / 2251799813685248"
  by code_simp

lemma revenue_spec_ten_pairs:
  "revenue_spec (concat (replicate 10
      [sample_order 1 ''delivered'' 10, sample_order 2 ''delivered'' 20])) = 3"
  by code_simp

text \<open>
  C1. Two delivered orders of 0.10 and 0.20: the revenue the route computes is the Number
  0.30000000000000004 (1351079888211149 / 2 ^ 52), which is neither the decimal sum 0.30
  nor the Number nearest to it. Ten such pairs, the example of the specification, give
  3.0000000000000013 (6755399441055747 / 2 ^ 51) where the decimal sum is 3.
\<close>

theorem revenue_is_floating_sum:
  "total_revenue (stats_of [sample_order 1 ''delivered'' 10, sample_order 2 ''delivered'' 20])
     = 1351079888211149 / 4503599627370496
   \<and> revenue_spec [sample_order 1 ''delivered'' 10, sample_order 2 ''delivered'' 20] = 30 / 100
   \<and> total_revenue (stats_of [sample_order 1 ''delivered'' 10, sample_order 2 ''delivered'' 20])
     \<noteq> revenue_spec [sample_order 1 ''delivered'' 10, sample_order 2 ''delivered'' 20]
   \<and> total_revenue (stats_of [sample_order 1 ''delivered'' 10, sample_order 2 ''delivered'' 20])
     \<noteq> parseFloat 30
   \<and> total_revenue (stats_of (concat (replicate 10
        [sample_order 1 ''delivered'' 10, sample_order 2 ''delivered'' 20])))
     = 6755399441055747 / 2251799813685248
   \<and> revenue_spec (concat (replicate 10
        [sample_order 1 ''delivered'' 10, sample_order 2 ''delivered'' 20])) = 3
   \<and> total_revenue (stats_of (concat (replicate 10
        [sample_order 1 ''delivered'' 10, sample_order 2 ''delivered'' 20])))
     \<noteq> revenue_spec (concat (replicate 10
        [sample_order 1 ''delivered'' 10, sample_order 2 ''delivered'' 20]))"
  unfolding revenue_two_orders revenue_spec_two_orders parseFloat_30 revenue_ten_pairs
    revenue_spec_ten_pairs
  by simp

section \<open>Properties of the order routes\<close>

text \<open>
  C9. A \<^verbatim>\<open>PATCH /:id/status\<close> whose body has no status (the key is left out, \<^verbatim>\<open>null\<close>, or
  the empty string) is answered 400 with \<^verbatim>\<open>{success: false, error: "Status is required"}\<close>,
  and the store is not touched.
\<close>

theorem setStatus_requires_status:
  "falsy s \<Longrightarrow> setStatus d now i s = (Respond 400 (Failure ''Status is required''), d)"
  by (simp add: setStatus_def)

theorem setStatus_requires_status_witness:
  "setStatus sample_db 7 100 Absent = (Respond 400 (Failure ''Status is required''), sample_db)"
  by (rule setStatus_requires_status) simp

text \<open>
  C8. Deleting an id that no stored order has is answered with success (not with
  NotFound), and the store is unchanged.
\<close>

theorem deleteOrder_absent:
  assumes "i \<notin> set (map o_id (orders d))"
  shows "deleteOrder d i = (Respond 200 (SuccessMessage ''Order deleted successfully''), d)
    \<and> failure_kind (fst (deleteOrder d i)) = None"
proof -
  from assms have none: "filter (\<lambda>x. o_id x = i) (orders d) = []"
    by (auto simp: filter_empty_conv)
  from assms have all: "filter (\<lambda>x. o_id x \<noteq> i) (orders d) = orders d"
    by (auto simp: filter_id_conv)
  show ?thesis
    by (simp add: deleteOrder_def delete_orders_def none all)
qed

theorem deleteOrder_absent_witness:
  "deleteOrder sample_db 101 = (Respond 200 (SuccessMessage ''Order deleted successfully''), sample_db)
    \<and> failure_kind (fst (deleteOrder sample_db 101)) = None"
  by (rule deleteOrder_absent) (simp add: sample_db_def sample_order_def)

text \<open>
  C6. After the order with a stored id is deleted, fetching that id is answered 404
  (NotFound), no row of \<^verbatim>\<open>order_items\<close> refers to the id any more, and the items of
  other orders are as before.
\<close>

theorem deleteOrder_then_getOrder:
  assumes "i \<in> set (map o_id (orders d))"
  shows "fst (deleteOrder d i) = Respond 200 (SuccessMessage ''Order deleted successfully'')
    \<and> getOrder (snd (deleteOrder d i)) i
        = (Respond 404 (Failure ''Order not found''), snd (deleteOrder d i))
    \<and> failure_kind (fst (getOrder (snd (deleteOrder d i)) i)) = Some NotFound
    \<and> filter (\<lambda>it. order_id it = i) (order_items (snd (deleteOrder d i))) = []
    \<and> filter (\<lambda>it. order_id it \<noteq> i) (order_items (snd (deleteOrder d i)))
        = filter (\<lambda>it. order_id it \<noteq> i) (order_items d)"
proof -
  let ?d' = "snd (deleteOrder d i)"
  from assms have gone: "set (map o_id (filter (\<lambda>x. o_id x = i) (orders d))) = {i}"
    by auto
  have d': "?d' = d\<lparr>orders := filter (\<lambda>x. o_id x \<noteq> i) (orders d),
                     order_items := filter (\<lambda>it. order_id it \<noteq> i) (order_items d)\<rparr>"
    unfolding deleteOrder_def delete_orders_def Let_def gone by simp
  have none: "filter (\<lambda>x. o_id x = i) (orders ?d') = []"
    unfolding d' by (simp add: filter_empty_conv)
  have "fst (deleteOrder d i) = Respond 200 (SuccessMessage ''Order deleted successfully'')"
    by (simp add: deleteOrder_def delete_orders_def Let_def)
  moreover have "getOrder ?d' i = (Respond 404 (Failure ''Order not found''), ?d')"
    unfolding getOrder_def none by (simp add: maybeSingle_def)
  moreover have "filter (\<lambda>it. order_id it = i) (order_items ?d') = []"
    unfolding d' by (simp add: filter_empty_conv)
  moreover have "filter (\<lambda>it. order_id it \<noteq> i) (order_items ?d')
        = filter (\<lambda>it. order_id it \<noteq> i) (order_items d)"
    unfolding d' by simp
  ultimately show ?thesis by simp
qed

theorem deleteOrder_then_getOrder_witness:
  "fst (deleteOrder sample_db 100) = Respond 200 (SuccessMessage ''Order deleted successfully'')
    \<and> getOrder (snd (deleteOrder sample_db 100)) 100
        = (Respond 404 (Failure ''Order not found''), snd (deleteOrder sample_db 100))
    \<and> failure_kind (fst (getOrder (snd (deleteOrder sample_db 100)) 100)) = Some NotFound
    \<and> filter (\<lambda>it. order_id it = 100) (order_items (snd (deleteOrder sample_db 100))) = []
    \<and> filter (\<lambda>it. order_id it \<noteq> 100) (order_items (snd (deleteOrder sample_db 100)))
        = filter (\<lambda>it. order_id it \<noteq> 100) (order_items sample_db)"
  by (rule deleteOrder_then_getOrder) (simp add: sample_db_def sample_order_def)

lemma update_rows_no_match:
  "i \<notin> set (map o_id xs) \<Longrightarrow> update_rows now i b xs = Inr (xs, [])"
  by (induction xs) auto

lemma update_rows_rejected:
  assumes "\<And>x. updated_row now b x = Inl e" and "i \<in> set (map o_id xs)"
  shows "update_rows now i b xs = Inl e"
  using assms(2)
proof (induction xs)
  case Nil
  then show ?case by simp
next
  case (Cons x xs)
  show ?case
  proof (cases "o_id x = i")
    case True
    then show ?thesis by (simp add: assms(1))
  next
    case False
    with Cons have "update_rows now i b xs = Inl e" by simp
    with False show ?thesis by simp
  qed
qed

lemma status_only_not_empty: "(empty_body\<lparr>b_status := Val s\<rparr> = empty_body) = False"
  by (simp add: empty_body_def)

lemma status_only_rejected:
  "s \<notin> set order_statuses \<Longrightarrow>
   updated_row now (empty_body\<lparr>b_status := Val s\<rparr>) x = Inl CheckViolation"
  by (simp add: updated_row_def body_fits_def empty_body_def patched_row_def order_checks_def)

lemma update_orders_no_match:
  "i \<notin> set (map o_id (orders d)) \<Longrightarrow> update_orders d now i b = Inr ([], d)"
  by (simp add: update_orders_def update_rows_no_match Let_def)

text \<open>
  An update writes the row anew: with a second order in the store, the updated order 100
  comes after it.
\<close>

lemma update_stores_row_last:
  "map o_id (orders (snd (updateOrder
      (sample_db\<lparr>orders := orders sample_db @ [sample_order 101 ''pending'' 900]\<rparr>)
      7 100 sample_patch))) = [101, 100]"
  by code_simp

text \<open>
  C5. A status \<open>s\<close> outside the four values never changes the store. The request fails
  with ValidationError when \<open>s\<close> is missing or empty (the route answers 400) and when an
  order with the id is stored (the \<^verbatim>\<open>CHECK\<close> on \<^verbatim>\<open>orders.status\<close> rejects the row). When
  no order has the id and \<open>s\<close> is not empty, no row is checked: the update returns no row
  and the request fails with NotFound.
\<close>

theorem setStatus_outside_enum:
  assumes "s \<notin> Val ` set order_statuses"
  shows "snd (setStatus d now i s) = d
    \<and> failure_kind (fst (setStatus d now i s))
        = (if falsy s \<or> i \<in> set (map o_id (orders d)) then Some ValidationError
           else Some NotFound)"
proof (cases "falsy s")
  case True
  then show ?thesis by (simp add: setStatus_def)
next
  case False
  then obtain v where s: "s = Val v" and v: "v \<noteq> []"
    by (cases s) auto
  from assms s have out: "v \<notin> set order_statuses" by auto
  show ?thesis
  proof (cases "i \<in> set (map o_id (orders d))")
    case True
    have "update_rows now i (empty_body\<lparr>b_status := Val v\<rparr>) (orders d) = Inl CheckViolation"
      using status_only_rejected [OF out] True by (rule update_rows_rejected)
    then have "update_orders d now i (empty_body\<lparr>b_status := Val v\<rparr>) = Inl CheckViolation"
      by (simp add: update_orders_def status_only_not_empty)
    with True v show ?thesis by (simp add: setStatus_def s)
  next
    case notin: False
    then have "update_orders d now i (empty_body\<lparr>b_status := Val v\<rparr>) = Inr ([], d)"
      by (rule update_orders_no_match)
    with notin v show ?thesis by (simp add: setStatus_def s single_def)
  qed
qed

theorem setStatus_outside_enum_witness:
  "snd (setStatus sample_db 7 100 (Val ''shipped'')) = sample_db
    \<and> failure_kind (fst (setStatus sample_db 7 100 (Val ''shipped'')))
        = (if falsy (Val ''shipped'') \<or> 100 \<in> set (map o_id (orders sample_db))
           then Some ValidationError else Some NotFound)"
  by (rule setStatus_outside_enum) (simp add: order_statuses_def image_iff)

text \<open>
  The status \<^verbatim>\<open>shipped\<close> for the id 101, which no order has: NotFound, not
  ValidationError.
\<close>

theorem setStatus_unknown_id_counterexample:
  "''shipped'' \<notin> set order_statuses
   \<and> setStatus sample_db 7 101 (Val ''shipped'') = (Next NotSingleRow, sample_db)
   \<and> failure_kind (fst (setStatus sample_db 7 101 (Val ''shipped''))) = Some NotFound
   \<and> failure_kind (fst (setStatus sample_db 7 101 (Val ''shipped''))) \<noteq> Some ValidationError"
  by (simp add: order_statuses_def setStatus_def update_orders_no_match sample_db_def
      sample_order_def single_def)

lemma update_rows_single:
  assumes "updated_row now b r = Inr r'"
  shows "filter (\<lambda>x. o_id x = i) xs = [r] \<Longrightarrow>
    update_rows now i b xs = Inr (filter (\<lambda>x. o_id x \<noteq> i) xs, [(r, r')])"
proof (induction xs)
  case Nil
  then show ?case by simp
next
  case (Cons x xs)
  show ?case
  proof (cases "o_id x = i")
    case True
    with Cons.prems have x: "x = r" and rest: "filter (\<lambda>x. o_id x = i) xs = []"
      by simp_all
    from rest have notin: "i \<notin> set (map o_id xs)"
      by (auto simp: filter_empty_conv)
    then have same: "filter (\<lambda>x. o_id x \<noteq> i) xs = xs"
      by (auto simp: filter_id_conv)
    from True x assms notin show ?thesis
      by (simp add: update_rows_no_match same)
  next
    case False
    with Cons.prems have "filter (\<lambda>x. o_id x = i) xs = [r]" by simp
    with Cons.IH False show ?thesis by simp
  qed
qed

lemma new_key_once:
  assumes "k \<notin> set (map o_id xs)" and "o_id r' = k"
  shows "filter (\<lambda>z. o_id z = k) (filter (\<lambda>x. o_id x \<noteq> i) xs @ [r']) = [r']"
proof -
  from assms(1) have "o_id x \<noteq> k" if "x \<in> set xs" for x
    using that by auto
  then have "filter (\<lambda>z. o_id z = k) (filter (\<lambda>x. o_id x \<noteq> i) xs) = []"
    by (simp add: filter_empty_conv)
  with assms(2) show ?thesis by simp
qed

text \<open>
  C7. An update of an id that no stored order has fails with NotFound and leaves the
  store as it is. For a stored id, a body that names at least one column and that the
  storage accepts (the updated row passes the \<^verbatim>\<open>NOT NULL\<close> and \<^verbatim>\<open>CHECK\<close> constraints, a
  changed key is free and leaves no items behind, a changed restaurant exists) is
  answered 200 with the updated row, which replaces the old one in the store (it is
  stored after the rows that were not touched) and whose \<^verbatim>\<open>updated_at\<close> is the time of
  the request.
\<close>

theorem updateOrder_result:
  "(i \<notin> set (map o_id (orders d)) \<longrightarrow>
      updateOrder d now i b = (Next NotSingleRow, d)
      \<and> failure_kind (fst (updateOrder d now i b)) = Some NotFound)
   \<and> (filter (\<lambda>x. o_id x = i) (orders d) = [r] \<and> b \<noteq> empty_body
      \<and> updated_row now b r = Inr r'
      \<and> (o_id r' = i \<or> o_id r' \<notin> set (map o_id (orders d))
            \<and> i \<notin> set (map order_id (order_items d)))
      \<and> (restaurant_id r' = restaurant_id r
            \<or> restaurant_id r' \<in> set (map fst (restaurants d))) \<longrightarrow>
      updateOrder d now i b
        = (Respond 200 (Success (OrderData r')),
           d\<lparr>orders := filter (\<lambda>x. o_id x \<noteq> i) (orders d) @ [r']\<rparr>)
      \<and> updated_at r' = Some now
      \<and> patched_row now b r = Some r')"
proof (rule conjI; rule impI)
  assume "i \<notin> set (map o_id (orders d))"
  then have "update_orders d now i b = Inr ([], d)"
    by (rule update_orders_no_match)
  then show "updateOrder d now i b = (Next NotSingleRow, d)
      \<and> failure_kind (fst (updateOrder d now i b)) = Some NotFound"
    by (simp add: updateOrder_def single_def)
next
  assume h: "filter (\<lambda>x. o_id x = i) (orders d) = [r] \<and> b \<noteq> empty_body
      \<and> updated_row now b r = Inr r'
      \<and> (o_id r' = i \<or> o_id r' \<notin> set (map o_id (orders d))
            \<and> i \<notin> set (map order_id (order_items d)))
      \<and> (restaurant_id r' = restaurant_id r
            \<or> restaurant_id r' \<in> set (map fst (restaurants d)))"
  then have one: "filter (\<lambda>x. o_id x = i) (orders d) = [r]"
    and b: "b \<noteq> empty_body"
    and row: "updated_row now b r = Inr r'"
    and key: "o_id r' = i \<or> o_id r' \<notin> set (map o_id (orders d))
            \<and> i \<notin> set (map order_id (order_items d))"
    and ref: "restaurant_id r' = restaurant_id r
            \<or> restaurant_id r' \<in> set (map fst (restaurants d))"
    by simp_all
  let ?kept = "filter (\<lambda>x. o_id x \<noteq> i) (orders d)"
  let ?tbl = "?kept @ [r']"
  have "r \<in> set (filter (\<lambda>x. o_id x = i) (orders d))"
    unfolding one by simp
  then have r: "o_id r = i" by simp
  have rows: "update_rows now i b (orders d) = Inr (?kept, [(r, r')])"
    using row one by (rule update_rows_single)
  have uniq: "\<not> (o_id r' \<noteq> o_id r \<and> 1 < length (filter (\<lambda>z. o_id z = o_id r') ?tbl))"
  proof (cases "o_id r' = i")
    case True
    with r show ?thesis by simp
  next
    case False
    with key have "o_id r' \<notin> set (map o_id (orders d))" by simp
    then have "filter (\<lambda>z. o_id z = o_id r') ?tbl = [r']"
      by (rule new_key_once) simp
    then show ?thesis by simp
  qed
  have items: "\<not> (o_id r' \<noteq> o_id r \<and> o_id r \<notin> set (map o_id ?tbl)
      \<and> o_id r \<in> set (map order_id (order_items d)))"
    using key r by auto
  have refs: "\<not> (restaurant_id r' \<noteq> restaurant_id r
      \<and> restaurant_id r' \<notin> set (map fst (restaurants d)))"
    using ref by auto
  have "update_orders d now i b = Inr ([r'], d\<lparr>orders := ?tbl\<rparr>)"
    unfolding update_orders_def using b uniq items refs by (simp add: rows Let_def)
  then have "updateOrder d now i b = (Respond 200 (Success (OrderData r')), d\<lparr>orders := ?tbl\<rparr>)"
    by (simp add: updateOrder_def single_def)
  moreover from row have p: "patched_row now b r = Some r'"
    by (auto simp: updated_row_def split: if_splits option.splits)
  moreover from p have "updated_at r' = Some now"
    by (auto simp: patched_row_def Option.bind_eq_Some_conv)
  ultimately show "updateOrder d now i b
        = (Respond 200 (Success (OrderData r')),
           d\<lparr>orders := filter (\<lambda>x. o_id x \<noteq> i) (orders d) @ [r']\<rparr>)
      \<and> updated_at r' = Some now
      \<and> patched_row now b r = Some r'"
    by simp
qed

theorem updateOrder_result_witness:
  "updateOrder sample_db 7 101 sample_patch = (Next NotSingleRow, sample_db)
   \<and> failure_kind (fst (updateOrder sample_db 7 101 sample_patch)) = Some NotFound
   \<and> updateOrder sample_db 7 100 sample_patch
      = (Respond 200 (Success (OrderData
           ((sample_order 100 ''pending'' 5000)
              \<lparr>o_notes := Some ''ring twice'', updated_at := Some 7\<rparr>))),
         sample_db\<lparr>orders := [(sample_order 100 ''pending'' 5000)
              \<lparr>o_notes := Some ''ring twice'', updated_at := Some 7\<rparr>]\<rparr>)
   \<and> updated_at ((sample_order 100 ''pending'' 5000)
              \<lparr>o_notes := Some ''ring twice'', updated_at := Some 7\<rparr>) = Some 7"
  using updateOrder_result [where i = 101 and d = sample_db and now = 7 and b = sample_patch]
    updateOrder_result [where i = 100 and d = sample_db and now = 7 and b = sample_patch
      and r = "sample_order 100 ''pending'' 4599"
      and r' = "(sample_order 100 ''pending'' 5000)
                  \<lparr>o_notes := Some ''ring twice'', updated_at := Some 7\<rparr>"]
  by (simp add: sample_db_def sample_order_def sample_patch_def empty_body_def
      updated_row_def body_fits_def fits_numeric_def patched_row_def order_checks_def
      order_statuses_def payment_methods_def payment_statuses_def)

text \<open>
  A negative \<^verbatim>\<open>total_amount\<close> for the stored id 100: the \<^verbatim>\<open>CHECK\<close> rejects the row, the
  request fails and the store, its \<^verbatim>\<open>updated_at\<close> included, is as before.
\<close>

theorem updateOrder_rejected_counterexample:
  "100 \<in> set (map o_id (orders sample_db))
   \<and> updateOrder sample_db 7 100 (empty_body\<lparr>b_total_amount := Val (- 1)\<rparr>)
      = (Next CheckViolation, sample_db)
   \<and> map updated_at (orders sample_db) = [Some 0]"
  by (simp add: sample_db_def sample_order_def empty_body_def updateOrder_def
      update_orders_def updated_row_def body_fits_def fits_numeric_def patched_row_def
      order_checks_def)

section \<open>Properties of order creation\<close>

subsection \<open>Inserting the header\<close>

lemma insert_order_result:
  assumes "insert_order d g now b = Inr (rows, d1)"
  shows "\<exists>r. rows = [r] \<and> d1 = d\<lparr>orders := orders d @ [r]\<rparr>
    \<and> inserted_row g now b = Inr r
    \<and> o_id r \<notin> set (map o_id (orders d))
    \<and> restaurant_id r \<in> set (map fst (restaurants d))"
  using assms by (auto simp: insert_order_def split: sum.splits if_splits)

lemma option_all_or_default:
  "field_all P f \<Longrightarrow> P dflt \<Longrightarrow> option_all P (or_default dflt f)"
  by (cases f) simp_all

lemma header_ok_inserted:
  assumes "header_ok d b"
  shows "\<exists>r. inserted_row g now b = Inr r \<and> header_matches b r \<and> o_id r = g
    \<and> restaurant_id r \<in> set (map fst (restaurants d))
    \<and> created_at r = Some now \<and> updated_at r = Some now"
proof -
  from assms obtain rid where rid: "b_restaurant_id b = Val rid"
    and ref: "rid \<in> set (map fst (restaurants d))"
    by (cases "b_restaurant_id b") (auto simp: header_ok_def)
  from assms obtain n where n: "b_customer_name b = Val n"
    by (cases "b_customer_name b") (auto simp: header_ok_def)
  from assms obtain p where p: "b_customer_phone b = Val p"
    by (cases "b_customer_phone b") (auto simp: header_ok_def)
  from assms obtain a where a: "b_customer_address b = Val a"
    by (cases "b_customer_address b") (auto simp: header_ok_def)
  from assms obtain t where t: "b_total_amount b = Val t" and t0: "0 \<le> t"
    and tf: "fits_numeric t"
    by (cases "b_total_amount b") (auto simp: header_ok_def)
  from assms have gen: "b_id b = Absent" "b_created_at b = Absent" "b_updated_at b = Absent"
    by (simp_all add: header_ok_def)
  from assms have fee: "field_all fits_numeric (b_delivery_fee b)"
    and st: "field_all (\<lambda>s. s \<in> set order_statuses) (b_status b)"
    and pm: "field_all (\<lambda>s. s \<in> set payment_methods) (b_payment_method b)"
    and ps: "field_all (\<lambda>s. s \<in> set payment_statuses) (b_payment_status b)"
    by (simp_all add: header_ok_def)
  let ?r = "\<lparr> o_id = g, restaurant_id = rid, customer_name = n, customer_phone = p,
       customer_address = a, status = or_default ''pending'' (b_status b),
       total_amount = t, delivery_fee = or_default 0 (b_delivery_fee b),
       payment_method = or_default ''cash'' (b_payment_method b),
       payment_status = or_default ''pending'' (b_payment_status b),
       o_notes = nullable (b_notes b),
       created_at = Some now, updated_at = Some now \<rparr>"
  have row: "new_order_row g now b = Some ?r"
    by (simp add: new_order_row_def rid n p a t gen)
  have fits: "body_fits b"
    by (simp add: body_fits_def t tf fee)
  have "option_all (\<lambda>s. s \<in> set order_statuses) (or_default ''pending'' (b_status b))"
    using st by (rule option_all_or_default) (simp add: order_statuses_def)
  moreover have "option_all (\<lambda>s. s \<in> set payment_methods) (or_default ''cash'' (b_payment_method b))"
    using pm by (rule option_all_or_default) (simp add: payment_methods_def)
  moreover have "option_all (\<lambda>s. s \<in> set payment_statuses) (or_default ''pending'' (b_payment_status b))"
    using ps by (rule option_all_or_default) (simp add: payment_statuses_def)
  ultimately have checks: "order_checks ?r"
    by (simp add: order_checks_def t0)
  have "inserted_row g now b = Inr ?r"
    by (simp add: inserted_row_def fits row checks)
  moreover have "header_matches b ?r"
    by (simp add: header_matches_def rid n p a t)
  ultimately show ?thesis using ref by auto
qed

subsection \<open>Inserting the items\<close>

lemma new_item_row_result:
  assumes "new_item_row g n = Inr r"
  shows "item_id r = g \<and> order_id r = n_order_id n
    \<and> n_menu_item_id n = Some (menu_item_id r)
    \<and> n_quantity n = Some (quantity r) \<and> n_price n = Some (price r)
    \<and> subtotal r = quantity r * price r"
  using assms
  by (auto simp: new_item_row_def split: if_splits option.splits)

lemma insert_rows_result:
  "insert_rows used gen k ns = Inr rs \<Longrightarrow>
     map order_id rs = map n_order_id ns
     \<and> map (\<lambda>r. (Some (menu_item_id r), Some (quantity r), Some (price r))) rs
         = map (\<lambda>n. (n_menu_item_id n, n_quantity n, n_price n)) ns
     \<and> list_all (\<lambda>r. subtotal r = quantity r * price r) rs"
proof (induction ns arbitrary: used k rs)
  case Nil
  then show ?case by simp
next
  case (Cons n ns)
  from Cons.prems obtain r rs' where r: "new_item_row (gen k) n = Inr r"
    and rest: "insert_rows (item_id r # used) gen (Suc k) ns = Inr rs'"
    and rs: "rs = r # rs'"
    by (auto split: sum.splits if_splits)
  from Cons.IH [OF rest] new_item_row_result [OF r] rs show ?case
    by simp
qed

lemma item_ok_row:
  assumes "item_ok it"
  shows "\<exists>r. new_item_row g \<lparr> n_order_id = oid, n_menu_item_id = i_menu_item_id it,
           n_quantity = i_quantity it, n_price = i_price it \<rparr> = Inr r \<and> item_id r = g"
  using assms
  by (auto simp: item_ok_def new_item_row_def split: option.splits)

lemma item_ok_converts:
  "list_all item_ok its \<Longrightarrow> batch_converts (orderItems oid its)"
  by (induction its)
    (auto simp: batch_converts_def orderItems_def item_ok_def split: option.splits)

lemma fresh_cons:
  assumes "distinct (map gen (k # js))" and "list_all (\<lambda>j. gen j \<notin> set used) (k # js)"
  shows "gen k \<notin> set used \<and> distinct (map gen js)
    \<and> list_all (\<lambda>j. gen j \<notin> set (gen k # used)) js"
  using assms by (auto simp: list_all_iff image_iff)

lemma fresh_keys_Suc:
  assumes "fresh_keys used gen k (Suc n)"
  shows "gen k \<notin> set used" and "fresh_keys (gen k # used) gen (Suc k) n"
proof -
  have upt: "[k..<k + Suc n] = k # [Suc k..<Suc k + n]"
    by (simp add: upt_conv_Cons)
  from assms have "distinct (map gen (k # [Suc k..<Suc k + n]))"
    and "list_all (\<lambda>j. gen j \<notin> set used) (k # [Suc k..<Suc k + n])"
    unfolding fresh_keys_def upt by blast+
  then have "gen k \<notin> set used \<and> distinct (map gen [Suc k..<Suc k + n])
    \<and> list_all (\<lambda>j. gen j \<notin> set (gen k # used)) [Suc k..<Suc k + n]"
    by (rule fresh_cons)
  then show "gen k \<notin> set used" and "fresh_keys (gen k # used) gen (Suc k) n"
    unfolding fresh_keys_def by blast+
qed

lemma insert_rows_accepts:
  "list_all item_ok its \<Longrightarrow> fresh_keys used gen k (length its) \<Longrightarrow>
     \<exists>rs. insert_rows used gen k (orderItems oid its) = Inr rs"
proof (induction its arbitrary: used k)
  case Nil
  then show ?case by (simp add: orderItems_def)
next
  case (Cons it its)
  from Cons.prems(1) have ok: "item_ok it" and oks: "list_all item_ok its"
    by simp_all
  from Cons.prems(2) have new: "gen k \<notin> set used"
    and fresh: "fresh_keys (gen k # used) gen (Suc k) (length its)"
    by (simp_all add: fresh_keys_Suc)
  from item_ok_row [OF ok] obtain r
    where r: "new_item_row (gen k) \<lparr> n_order_id = oid, n_menu_item_id = i_menu_item_id it,
           n_quantity = i_quantity it, n_price = i_price it \<rparr> = Inr r"
      and key: "item_id r = gen k"
    by blast
  from Cons.IH [OF oks fresh] obtain rs
    where "insert_rows (gen k # used) gen (Suc k) (orderItems oid its) = Inr rs"
    by blast
  with r key new show ?case
    by (simp add: orderItems_def)
qed

text \<open>
  A batch whose first item has the quantity 0 and whose second has a price beyond the
  column: the conversion of the batch fails before any row is checked.
\<close>

lemma batch_is_converted_first:
  "insert_order_items sample_db sample_gen 1 (orderItems 100
      [\<lparr> i_menu_item_id = Some 10, i_quantity = Some 0, i_price = Some 1250 \<rparr>,
       \<lparr> i_menu_item_id = Some 11, i_quantity = Some 1, i_price = Some (10 ^ 10) \<rparr>])
     = Inl NumericOverflow"
  by code_simp

subsection \<open>The route\<close>

lemma createOrder_after_header:
  assumes "insert_order d (gen 0) now hdr = Inr ([order], d1)"
  shows "createOrder d gen now hdr items =
    (case insert_order_items d1 gen 1 (orderItems (o_id order) (items_of items)) of
       Inl e \<Rightarrow> (Next e, d1)
     | Inr d2 \<Rightarrow> (Respond 201 (Success (OrderData order)), d2))"
proof (cases "items_of items")
  case Nil
  then have "createOrder d gen now hdr items = (Respond 201 (Success (OrderData order)), d1)"
    using assms by (cases items) (simp_all add: createOrder_def single_def)
  moreover have "insert_order_items d1 gen 1 (orderItems (o_id order) []) = Inr d1"
    by (simp add: insert_order_items_def orderItems_def batch_converts_def)
  ultimately show ?thesis using Nil by simp
next
  case (Cons it its)
  then have "items = Some (it # its)"
    by (cases items) simp_all
  with assms Cons show ?thesis
    by (simp add: createOrder_def single_def)
qed


lemma orderItems_fields:
  "map n_order_id (orderItems oid its) = map (\<lambda>it. oid) its"
  "map (\<lambda>n. (n_menu_item_id n, n_quantity n, n_price n)) (orderItems oid its)
     = map (\<lambda>it. (i_menu_item_id it, i_quantity it, i_price it)) its"
  by (simp_all add: orderItems_def)

text \<open>
  C2. When the header is stored (the insert returns the row \<open>order\<close> and the store \<open>d1\<close>)
  and the batch insert of the items fails with an error \<open>e\<close>, the request fails with
  \<open>e\<close>; the store it leaves is \<open>d1\<close>: the orders with the new header added, the
  \<^verbatim>\<open>order_items\<close> as before the request. When the items are well-formed and the generated
  keys are new, the only failure left is a reference to a menu item that does not exist:
  then \<open>e\<close> is the foreign key violation, a ReferenceError, and some item names a menu
  item that is not stored.
\<close>

theorem createOrder_batch_failure:
  assumes header: "insert_order d (gen 0) now hdr = Inr ([order], d1)"
    and batch: "insert_order_items d1 gen 1 (orderItems (o_id order) (items_of items)) = Inl e"
  shows "createOrder d gen now hdr items = (Next e, d1)
    \<and> order_items d1 = order_items d
    \<and> orders d1 = orders d @ [order]
    \<and> (list_all item_ok (items_of items)
        \<and> fresh_keys (map item_id (order_items d)) gen 1 (length (items_of items))
        \<longrightarrow> e = ForeignKeyViolation
          \<and> failure_kind (fst (createOrder d gen now hdr items)) = Some ReferenceError
          \<and> list_ex (\<lambda>it. \<not> item_ref_ok d it) (items_of items))"
proof -
  let ?its = "items_of items"
  let ?ns = "orderItems (o_id order) ?its"
  have call: "createOrder d gen now hdr items = (Next e, d1)"
    unfolding createOrder_after_header [where gen = gen, OF header] batch by simp
  from insert_order_result [OF header]
  have d1: "d1 = d\<lparr>orders := orders d @ [order]\<rparr>"
    by auto
  have well_formed: "e = ForeignKeyViolation \<and> list_ex (\<lambda>it. \<not> item_ref_ok d it) ?its"
    if ok: "list_all item_ok ?its"
      and fresh: "fresh_keys (map item_id (order_items d)) gen 1 (length ?its)"
  proof -
    from insert_rows_accepts [OF ok fresh] obtain rs
      where rs: "insert_rows (map item_id (order_items d)) gen 1 ?ns = Inr rs"
      by blast
    from insert_rows_result [OF rs]
    have owner: "map order_id rs = map (\<lambda>it. o_id order) ?its"
      and triples: "map (\<lambda>r. (Some (menu_item_id r), Some (quantity r), Some (price r))) rs
         = map (\<lambda>it. (i_menu_item_id it, i_quantity it, i_price it)) ?its"
      by (simp_all add: orderItems_fields)
    have "order_items d1 = order_items d"
      by (simp add: d1)
    with batch rs item_ok_converts [OF ok, of "o_id order"] have e: "e = ForeignKeyViolation"
      and bad: "\<not> list_all (\<lambda>r. order_id r \<in> set (map o_id (orders d1))
                \<and> menu_item_id r \<in> set (map fst (menu_items d1))) rs"
      unfolding insert_order_items_def by (auto split: if_splits)
    from bad obtain r where r: "r \<in> set rs"
      and miss: "order_id r \<notin> set (map o_id (orders d1))
        \<or> menu_item_id r \<notin> set (map fst (menu_items d1))"
      by (auto simp: list_all_iff)
    from r have "order_id r \<in> set (map order_id rs)" by simp
    then have "order_id r = o_id order"
      unfolding owner by auto
    with miss have menu: "menu_item_id r \<notin> set (map fst (menu_items d))"
      by (simp add: d1)
    from r have "(Some (menu_item_id r), Some (quantity r), Some (price r))
        \<in> set (map (\<lambda>r. (Some (menu_item_id r), Some (quantity r), Some (price r))) rs)"
      by (simp add: image_iff) blast
    then obtain it where it: "it \<in> set ?its" and "i_menu_item_id it = Some (menu_item_id r)"
      unfolding triples by auto
    with menu have "\<not> item_ref_ok d it"
      by (simp add: item_ref_ok_def)
    with it have "list_ex (\<lambda>it. \<not> item_ref_ok d it) ?its"
      by (auto simp: list_ex_iff)
    with e show ?thesis by simp
  qed
  from call d1 well_formed show ?thesis
    by auto
qed

text \<open>
  C3. In a store where every item belongs to a stored order, a well-formed header with
  well-formed items that name stored menu items, and generated keys that are new, is
  answered 201 with the stored header: it has the generated key, matches the header of
  the request and carries the time of the request. A fetch of that key in the store the
  request leaves is answered 200 with the same header and a list of items whose
  (\<^verbatim>\<open>menu_item_id\<close>, \<^verbatim>\<open>quantity\<close>, \<^verbatim>\<open>price\<close>) triples are, as a multiset, those of the
  request, each with \<^verbatim>\<open>subtotal = quantity * price\<close>.
\<close>

theorem createOrder_then_getOrder:
  assumes owned: "list_all (\<lambda>it. order_id it \<in> set (map o_id (orders d))) (order_items d)"
    and hdr: "header_ok d hdr"
    and key: "gen 0 \<notin> set (map o_id (orders d))"
    and its: "list_all (\<lambda>it. item_ok it \<and> item_ref_ok d it) (items_of items)"
    and fresh: "fresh_keys (map item_id (order_items d)) gen 1 (length (items_of items))"
  shows "\<exists>order d' name rows.
      createOrder d gen now hdr items = (Respond 201 (Success (OrderData order)), d')
    \<and> o_id order = gen 0 \<and> header_matches hdr order
    \<and> created_at order = Some now \<and> updated_at order = Some now
    \<and> getOrder d' (o_id order) = (Respond 200 (Success (OrderDetail order name rows)), d')
    \<and> mset (map (\<lambda>(r, n). (Some (menu_item_id r), Some (quantity r), Some (price r))) rows)
        = mset (map (\<lambda>it. (i_menu_item_id it, i_quantity it, i_price it)) (items_of items))
    \<and> list_all (\<lambda>(r, n). subtotal r = quantity r * price r) rows"
proof -
  let ?its = "items_of items"
  from header_ok_inserted [OF hdr, of "gen 0" now] obtain order
    where row: "inserted_row (gen 0) now hdr = Inr order"
      and matches: "header_matches hdr order"
      and oid: "o_id order = gen 0"
      and ref: "restaurant_id order \<in> set (map fst (restaurants d))"
      and times: "created_at order = Some now" "updated_at order = Some now"
    by blast
  let ?d1 = "d\<lparr>orders := orders d @ [order]\<rparr>"
  let ?ns = "orderItems (o_id order) ?its"
  have header: "insert_order d (gen 0) now hdr = Inr ([order], ?d1)"
    using key ref by (simp add: insert_order_def row oid)
  from its have ok: "list_all item_ok ?its"
    and refs: "list_all (item_ref_ok d) ?its"
    by (simp_all add: list_all_iff)
  from insert_rows_accepts [OF ok fresh] obtain rs
    where rs: "insert_rows (map item_id (order_items d)) gen 1 ?ns = Inr rs"
    by blast
  from insert_rows_result [OF rs]
  have owner: "map order_id rs = map (\<lambda>it. o_id order) ?its"
    and triples: "map (\<lambda>r. (Some (menu_item_id r), Some (quantity r), Some (price r))) rs
       = map (\<lambda>it. (i_menu_item_id it, i_quantity it, i_price it)) ?its"
    and subtotals: "list_all (\<lambda>r. subtotal r = quantity r * price r) rs"
    by (simp_all add: orderItems_fields)
  have mine: "order_id r = gen 0" if "r \<in> set rs" for r
  proof -
    from that have "order_id r \<in> set (map order_id rs)" by simp
    then show ?thesis unfolding owner by (auto simp: oid)
  qed
  have menu: "menu_item_id r \<in> set (map fst (menu_items d))" if "r \<in> set rs" for r
  proof -
    from that have "(Some (menu_item_id r), Some (quantity r), Some (price r))
        \<in> set (map (\<lambda>r. (Some (menu_item_id r), Some (quantity r), Some (price r))) rs)"
      by (simp add: image_iff) blast
    then obtain it where "it \<in> set ?its" and "i_menu_item_id it = Some (menu_item_id r)"
      unfolding triples by auto
    with refs show ?thesis
      by (auto simp: list_all_iff item_ref_ok_def)
  qed
  let ?d2 = "?d1\<lparr>order_items := order_items d @ rs\<rparr>"
  have "list_all (\<lambda>r. order_id r \<in> set (map o_id (orders ?d1))
          \<and> menu_item_id r \<in> set (map fst (menu_items ?d1))) rs"
    using mine menu by (auto simp: list_all_iff oid)
  then have batch: "insert_order_items ?d1 gen 1 ?ns = Inr ?d2"
    unfolding insert_order_items_def
    by (simp add: rs [simplified] item_ok_converts [OF ok])
  have created: "createOrder d gen now hdr items = (Respond 201 (Success (OrderData order)), ?d2)"
    unfolding createOrder_after_header [where gen = gen, OF header] batch by simp
  have stored: "filter (\<lambda>x. o_id x = gen 0) (orders ?d2) = [order]"
    using key by (auto simp: oid filter_empty_conv image_iff)
  have old: "filter (\<lambda>it. order_id it = gen 0) (order_items d) = []"
  proof -
    have "order_id it \<noteq> gen 0" if "it \<in> set (order_items d)" for it
    proof
      assume "order_id it = gen 0"
      moreover from owned that have "order_id it \<in> set (map o_id (orders d))"
        by (simp add: list_all_iff)
      ultimately show False using key by simp
    qed
    then show ?thesis by (simp add: filter_empty_conv)
  qed
  have new: "filter (\<lambda>it. order_id it = gen 0) rs = rs"
    using mine by (simp add: filter_id_conv)
  let ?rows = "map (\<lambda>it. (it, map_of (menu_items ?d2) (menu_item_id it))) rs"
  have fetched: "getOrder ?d2 (o_id order)
      = (Respond 200 (Success (OrderDetail order
           (map_of (restaurants ?d2) (restaurant_id order)) ?rows)), ?d2)"
    unfolding getOrder_def oid stored by (simp add: maybeSingle_def old new)
  have "map (\<lambda>(r, n). (Some (menu_item_id r), Some (quantity r), Some (price r))) ?rows
      = map (\<lambda>it. (i_menu_item_id it, i_quantity it, i_price it)) ?its"
    unfolding triples [symmetric] by (simp add: comp_def)
  then have same: "mset (map (\<lambda>(r, n). (Some (menu_item_id r), Some (quantity r), Some (price r))) ?rows)
      = mset (map (\<lambda>it. (i_menu_item_id it, i_quantity it, i_price it)) ?its)"
    by simp
  have subs: "list_all (\<lambda>(r, n). subtotal r = quantity r * price r) ?rows"
    using subtotals by (simp add: list_all_iff)
  from created oid matches times fetched same subs show ?thesis
    by blast
qed


lemma sample_header_stored:
  "insert_order sample_db (sample_gen 0) 9 sample_header
     = Inr ([sample_stored], sample_db\<lparr>orders := orders sample_db @ [sample_stored]\<rparr>)"
  by code_simp

lemma sample_dangling_batch:
  "insert_order_items (sample_db\<lparr>orders := orders sample_db @ [sample_stored]\<rparr>) sample_gen 1
     (orderItems (o_id sample_stored) (items_of (Some sample_dangling_items)))
     = Inl ForeignKeyViolation"
  by code_simp

lemma sample_dangling_well_formed:
  "list_all item_ok (items_of (Some sample_dangling_items))
   \<and> fresh_keys (map item_id (order_items sample_db)) sample_gen 1
        (length (items_of (Some sample_dangling_items)))"
  by code_simp

theorem createOrder_batch_failure_witness:
  "createOrder sample_db sample_gen 9 sample_header (Some sample_dangling_items)
     = (Next ForeignKeyViolation, sample_db\<lparr>orders := orders sample_db @ [sample_stored]\<rparr>)
   \<and> order_items (sample_db\<lparr>orders := orders sample_db @ [sample_stored]\<rparr>)
       = order_items sample_db
   \<and> failure_kind (fst (createOrder sample_db sample_gen 9 sample_header
        (Some sample_dangling_items))) = Some ReferenceError
   \<and> list_ex (\<lambda>it. \<not> item_ref_ok sample_db it) (items_of (Some sample_dangling_items))"
  using createOrder_batch_failure [where gen = sample_gen, OF sample_header_stored
      sample_dangling_batch] sample_dangling_well_formed
  by blast

text \<open>
  An item with the quantity 0: the header is stored, the batch fails on
  \<^verbatim>\<open>CHECK (quantity > 0)\<close>, and the request fails with that error, a ValidationError and
  not a ReferenceError.
\<close>

theorem createOrder_check_counterexample:
  "insert_order sample_db (sample_gen 0) 9 sample_header
     = Inr ([sample_stored], sample_db\<lparr>orders := orders sample_db @ [sample_stored]\<rparr>)
   \<and> insert_order_items (sample_db\<lparr>orders := orders sample_db @ [sample_stored]\<rparr>) sample_gen 1
       (orderItems (o_id sample_stored) sample_zero_items) = Inl CheckViolation
   \<and> createOrder sample_db sample_gen 9 sample_header (Some sample_zero_items)
       = (Next CheckViolation, sample_db\<lparr>orders := orders sample_db @ [sample_stored]\<rparr>)
   \<and> failure_kind (fst (createOrder sample_db sample_gen 9 sample_header
        (Some sample_zero_items))) = Some ValidationError
   \<and> failure_kind (fst (createOrder sample_db sample_gen 9 sample_header
        (Some sample_zero_items))) \<noteq> Some ReferenceError"
  by code_simp

lemma sample_request_ok:
  "list_all (\<lambda>it. order_id it \<in> set (map o_id (orders sample_db))) (order_items sample_db)"
  "header_ok sample_db sample_header"
  "sample_gen 0 \<notin> set (map o_id (orders sample_db))"
  "list_all (\<lambda>it. item_ok it \<and> item_ref_ok sample_db it) (items_of (Some sample_items))"
  "fresh_keys (map item_id (order_items sample_db)) sample_gen 1
     (length (items_of (Some sample_items)))"
  by code_simp+

theorem createOrder_then_getOrder_witness:
  "\<exists>order d' name rows.
      createOrder sample_db sample_gen 9 sample_header (Some sample_items)
        = (Respond 201 (Success (OrderData order)), d')
    \<and> o_id order = sample_gen 0 \<and> header_matches sample_header order
    \<and> created_at order = Some 9 \<and> updated_at order = Some 9
    \<and> getOrder d' (o_id order) = (Respond 200 (Success (OrderDetail order name rows)), d')
    \<and> mset (map (\<lambda>(r, n). (Some (menu_item_id r), Some (quantity r), Some (price r))) rows)
        = mset (map (\<lambda>it. (i_menu_item_id it, i_quantity it, i_price it))
            (items_of (Some sample_items)))
    \<and> list_all (\<lambda>(r, n). subtotal r = quantity r * price r) rows"
  using sample_request_ok
  by (rule createOrder_then_getOrder [where gen = sample_gen])

text \<open>The same request, computed: the stored header and the two items with their names.\<close>

lemma createOrder_then_getOrder_example:
  "fst (createOrder sample_db sample_gen 9 sample_header (Some sample_items))
     = Respond 201 (Success (OrderData sample_stored))
   \<and> fst (getOrder (snd (createOrder sample_db sample_gen 9 sample_header (Some sample_items))) 300)
     = Respond 200 (Success (OrderDetail sample_stored (Some ''Luigi'')
         [(\<lparr> item_id = 301, order_id = 300, menu_item_id = 10, quantity = 2, price = 1250,
              subtotal = 2500 \<rparr>, Some ''Pizza''),
          (\<lparr> item_id = 302, order_id = 300, menu_item_id = 11, quantity = 1, price = 2099,
              subtotal = 2099 \<rparr>, Some ''Pasta'')]))"
  by code_simp

end
